theory Spec2Isabelle
  imports Main
begin

section \<open>settings.py: the level enumeration and the settings object\<close>

text \<open>
  \<^verbatim>\<open>class LogLevel(str, enum.Enum)\<close> has six members, declared in the order below, each
  with its own name as value. The class defines no comparison of its own; since it mixes
  in \<^verbatim>\<open>str\<close>, the operators \<^verbatim>\<open><\<close>, \<^verbatim>\<open><=\<close>, ... on two members are those of
  \<^verbatim>\<open>str\<close>, applied to the members' values.
\<close>

datatype LogLevel = NOTSET | DEBUG | INFO | WARNING | ERROR | FATAL

fun LogLevel_value :: "LogLevel \<Rightarrow> string" where
  "LogLevel_value NOTSET = ''NOTSET''"
| "LogLevel_value DEBUG = ''DEBUG''"
| "LogLevel_value INFO = ''INFO''"
| "LogLevel_value WARNING = ''WARNING''"
| "LogLevel_value ERROR = ''ERROR''"
| "LogLevel_value FATAL = ''FATAL''"

text \<open>Iterating over the enumeration yields the members in declaration order.\<close>

definition LogLevel_members :: "LogLevel list" where
  "LogLevel_members = [NOTSET, DEBUG, INFO, WARNING, ERROR, FATAL]"

text \<open>
  Python compares two strings code point by code point; a proper prefix is smaller.
\<close>

fun str_lt :: "string \<Rightarrow> string \<Rightarrow> bool" where
  "str_lt [] [] = False"
| "str_lt [] (y # ys) = True"
| "str_lt (x # xs) [] = False"
| "str_lt (x # xs) (y # ys) =
     (if (of_char x :: nat) < of_char y then True
      else if (of_char y :: nat) < of_char x then False
      else str_lt xs ys)"

definition LogLevel_lt :: "LogLevel \<Rightarrow> LogLevel \<Rightarrow> bool" where
  "LogLevel_lt a b = str_lt (LogLevel_value a) (LogLevel_value b)"

text \<open>
  \<^verbatim>\<open>class Settings(BaseSettings)\<close>: the fields and their defaults. The field names
  carry the class name as a prefix, because \<^verbatim>\<open>log.py\<close> has module constants called
  \<^verbatim>\<open>LOG_LEVEL\<close> and \<^verbatim>\<open>LOG_JSON_FORMAT\<close> too.
\<close>

record Settings =
  Settings_ENVIRONMENT :: string
  Settings_RELOAD :: bool
  Settings_WORKERS :: int
  Settings_LOG_LEVEL :: LogLevel
  Settings_LOG_JSON_FORMAT :: bool
  Settings_REDIS_HOST :: string
  Settings_REDIS_PORT :: int

definition Settings_defaults :: Settings where
  "Settings_defaults =
     \<lparr>Settings_ENVIRONMENT = ''pytest'', Settings_RELOAD = False, Settings_WORKERS = 1,
      Settings_LOG_LEVEL = INFO, Settings_LOG_JSON_FORMAT = False,
      Settings_REDIS_HOST = ''localhost'', Settings_REDIS_PORT = 6378\<rparr>"

section \<open>log.py: event dictionaries and the two processors defined in the module\<close>

text \<open>
  An exception as the hook receives it: the class, given by the names of its method
  resolution order (the class itself first), the message and the traceback.
\<close>

record exc_info =
  exc_type :: "string list"
  exc_value :: string
  exc_traceback :: "string list option"

definition issubclass :: "string list \<Rightarrow> string \<Rightarrow> bool" where
  "issubclass cls name = (name \<in> set cls)"

text \<open>The values an event dictionary holds; an entry's \<^verbatim>\<open>exc_info\<close> is an exception.\<close>

datatype py_value =
    PyNone
  | PyBool bool
  | PyInt int
  | PyStr string
  | PyList "py_value list"
  | PyExcInfo exc_info

text \<open>
  An event dictionary is a Python \<^verbatim>\<open>dict\<close> with string keys: insertion ordered, one
  entry per key. It is modelled as an association list; \<open>wf_dict\<close> is the
  representation invariant (no key twice).
\<close>

type_synonym EventDict = "(string \<times> py_value) list"

definition wf_dict :: "EventDict \<Rightarrow> bool" where
  "wf_dict d = distinct (map fst d)"

definition dict_keys :: "EventDict \<Rightarrow> string list" where
  "dict_keys d = map fst d"

fun dict_get :: "EventDict \<Rightarrow> string \<Rightarrow> py_value option" where
  "dict_get [] k = None"
| "dict_get ((k', v) # d) k = (if k' = k then Some v else dict_get d k)"

text \<open>\<^verbatim>\<open>d[k] = v\<close>: an existing key keeps its position, a new key is appended.\<close>

fun dict_setitem :: "string \<Rightarrow> py_value \<Rightarrow> EventDict \<Rightarrow> EventDict" where
  "dict_setitem k v [] = [(k, v)]"
| "dict_setitem k v ((k', v') # d) =
     (if k' = k then (k, v) # d else (k', v') # dict_setitem k v d)"

text \<open>
  \<^verbatim>\<open>d.pop(k, None)\<close>, the dictionary afterwards: the entry of \<open>k\<close> is removed when
  there is one; with the default given, a missing key raises nothing.
\<close>

fun dict_pop_default :: "string \<Rightarrow> EventDict \<Rightarrow> EventDict" where
  "dict_pop_default k [] = []"
| "dict_pop_default k ((k', v') # d) =
     (if k' = k then d else (k', v') # dict_pop_default k d)"

text \<open>
  \<^verbatim>\<open>_set_process_id(_, __, event_dict)\<close> and \<^verbatim>\<open>_drop_color_message_key(_, __, event_dict)\<close>
  (an Isabelle name cannot start with an underscore). Both ignore the logger and the
  method name. \<^verbatim>\<open>os.getpid()\<close> reads the process environment: its value is the first
  argument.
\<close>

definition set_process_id :: "int \<Rightarrow> 'l \<Rightarrow> string \<Rightarrow> EventDict \<Rightarrow> EventDict" where
  "set_process_id getpid lg method_name event_dict =
     dict_setitem ''process_id'' (PyInt getpid) event_dict"

definition drop_color_message_key :: "'l \<Rightarrow> string \<Rightarrow> EventDict \<Rightarrow> EventDict" where
  "drop_color_message_key lg method_name event_dict =
     dict_pop_default ''color_message'' event_dict"

section \<open>log.py: the processor chain built by \<open>setup_logging\<close>\<close>

text \<open>
  The processors are callables of structlog, apart from the two defined above. A chain
  is a list of them; each is named here by a constructor, with the arguments the source
  gives it. The callables of structlog that \<^verbatim>\<open>setup_logging\<close> touches but does not
  put into the shared list (\<^verbatim>\<open>wrap_for_formatter\<close>, \<^verbatim>\<open>remove_processors_meta\<close> and the two
  renderers) are constructors of the same type, since they stand in the same lists.
\<close>

datatype CallsiteParameter = FILENAME | FUNC_NAME | LINENO

datatype colorama = Fore_CYAN | Fore_GREEN | Fore_YELLOW | Fore_RED | Style_BRIGHT

datatype Processor =
    merge_contextvars
  | add_logger_name
  | Proc_set_process_id
  | add_log_level
  | PositionalArgumentsFormatter
  | ExtraAdder
  | Proc_drop_color_message_key
  | TimeStamper string
  | StackInfoRenderer
  | UnicodeDecoder
  | CallsiteParameterAdder "CallsiteParameter list"
  | format_exc_info
  | wrap_for_formatter
  | remove_processors_meta
  | JSONRenderer
  | ConsoleRenderer bool "(string \<times> colorama list) list"

text \<open>The module constants of \<^verbatim>\<open>log.py\<close> (lines 12 and 13).\<close>

definition LOG_LEVEL :: string where
  "LOG_LEVEL = ''INFO''"

definition LOG_JSON_FORMAT :: bool where
  "LOG_JSON_FORMAT = False"

text \<open>
  The local list \<^verbatim>\<open>shared_processors\<close> after the \<^verbatim>\<open>if LOG_JSON_FORMAT:\<close> statement, and
  the local \<^verbatim>\<open>log_renderer\<close>, as functions of the flag they branch on.
\<close>

definition shared_processors :: "bool \<Rightarrow> Processor list" where
  "shared_processors json_format =
     [merge_contextvars,
      add_logger_name,
      Proc_set_process_id,
      add_log_level,
      PositionalArgumentsFormatter,
      ExtraAdder,
      Proc_drop_color_message_key,
      TimeStamper ''iso'',
      StackInfoRenderer,
      UnicodeDecoder,
      CallsiteParameterAdder [FILENAME, FUNC_NAME, LINENO]]
     @ (if json_format then [format_exc_info] else [])"

definition log_renderer :: "bool \<Rightarrow> Processor" where
  "log_renderer json_format =
     (if json_format then JSONRenderer
      else ConsoleRenderer True
             [(''debug'', [Fore_CYAN]),
              (''info'', [Fore_GREEN]),
              (''warning'', [Fore_YELLOW]),
              (''error'', [Fore_RED]),
              (''critical'', [Fore_RED, Style_BRIGHT])])"

datatype RenderMode = STRUCTURED | HUMAN

fun render_mode_of :: "Processor \<Rightarrow> RenderMode option" where
  "render_mode_of JSONRenderer = Some STRUCTURED"
| "render_mode_of (ConsoleRenderer colors level_styles) = Some HUMAN"
| "render_mode_of other = None"

section \<open>The process state that \<open>setup_logging\<close> changes\<close>

text \<open>
  The standard library's logging state, as far as the source reads or writes it: the
  root logger and the dictionary of named loggers, each logger with its handler list,
  its propagation flag and its numeric level. A handler is a \<^verbatim>\<open>StreamHandler\<close> with the
  formatter set on it, if any.
\<close>

datatype Formatter =
  ProcessorFormatter (foreign_pre_chain: "Processor list") (processors: "Processor list")

datatype Handler = StreamHandler (formatter: "Formatter option")

record Logger =
  handlers :: "Handler list"
  propagate :: bool
  level :: nat

text \<open>A logger as \<^verbatim>\<open>logging.getLogger(name)\<close> creates it on first use.\<close>

definition new_Logger :: Logger where
  "new_Logger = \<lparr>handlers = [], propagate = True, level = 0\<rparr>"

datatype LoggerFactory = PrintLoggerFactory | stdlib_LoggerFactory

datatype WrapperClass = default_BoundLogger | stdlib_BoundLogger

record structlog_config =
  cfg_processors :: "Processor list"
  cfg_logger_factory :: LoggerFactory
  cfg_wrapper_class :: WrapperClass
  cfg_cache_logger_on_first_use :: bool

text \<open>
  \<^verbatim>\<open>sys.excepthook\<close> holds the interpreter's built-in hook (\<^verbatim>\<open>sys.__excepthook__\<close>), the
  closure \<^verbatim>\<open>_handle_exception\<close> of \<^verbatim>\<open>setup_logging\<close>, or a callable installed by other
  code.
\<close>

datatype Hook = builtin_excepthook | handle_exception_hook | other_hook string

record world =
  settings :: Settings
  root :: Logger
  loggerDict :: "string \<Rightarrow> Logger option"
  structlog :: "structlog_config option"
  excepthook :: Hook

text \<open>
  A process in which nothing has configured logging yet: the root logger has the
  standard library's default level WARNING and no handler, no named logger exists,
  structlog is unconfigured and the exception hook is the built-in one.
\<close>

definition fresh_world :: "Settings \<Rightarrow> world" where
  "fresh_world s =
     \<lparr>settings = s,
      root = \<lparr>handlers = [], propagate = True, level = 30\<rparr>,
      loggerDict = (\<lambda>name. None),
      structlog = None,
      excepthook = builtin_excepthook\<rparr>"

datatype py_error = ValueError string

text \<open>\<^verbatim>\<open>str.upper()\<close> on ASCII text.\<close>

definition upper_char :: "char \<Rightarrow> char" where
  "upper_char c =
     (let n = (of_char c :: nat) in if 97 \<le> n \<and> n \<le> 122 then char_of (n - 32) else c)"

definition upper :: "string \<Rightarrow> string" where
  "upper s = map upper_char s"

text \<open>
  The standard library's table of level names, and \<^verbatim>\<open>setLevel\<close>'s check of a level
  given as a string: an unknown name raises \<^verbatim>\<open>ValueError\<close>.
\<close>

definition nameToLevel :: "string \<Rightarrow> nat option" where
  "nameToLevel =
     map_of [(''CRITICAL'', 50), (''FATAL'', 50), (''ERROR'', 40), (''WARN'', 30),
             (''WARNING'', 30), (''INFO'', 20), (''DEBUG'', 10), (''NOTSET'', 0)]"

definition checkLevel :: "string \<Rightarrow> py_error + nat" where
  "checkLevel name =
     (case nameToLevel name of None \<Rightarrow> Inl (ValueError name) | Some n \<Rightarrow> Inr n)"

text \<open>\<^verbatim>\<open>__name__\<close> inside \<^verbatim>\<open>log.py\<close>, which the package imports as \<^verbatim>\<open>app.log\<close>.\<close>

definition dunder_name :: string where
  "dunder_name = ''app.log''"

definition getLogger :: "world \<Rightarrow> string \<Rightarrow> Logger" where
  "getLogger w name = (case loggerDict w name of None \<Rightarrow> new_Logger | Some l \<Rightarrow> l)"

text \<open>
  \<^verbatim>\<open>logging.getLogger(name).handlers.clear()\<close> and
  \<^verbatim>\<open>logging.getLogger(name).propagate = b\<close>: the logger is created when it does not
  exist, and stays registered under its name.
\<close>

definition handlers_clear :: "string \<Rightarrow> world \<Rightarrow> world" where
  "handlers_clear name w =
     w\<lparr>loggerDict := (loggerDict w)(name \<mapsto> (getLogger w name)\<lparr>handlers := []\<rparr>)\<rparr>"

definition set_propagate :: "string \<Rightarrow> bool \<Rightarrow> world \<Rightarrow> world" where
  "set_propagate name b w =
     w\<lparr>loggerDict := (loggerDict w)(name \<mapsto> (getLogger w name)\<lparr>propagate := b\<rparr>)\<rparr>"

text \<open>
  \<^verbatim>\<open>root_logger.addHandler(handler)\<close>: \<^verbatim>\<open>addHandler\<close> skips a handler that is already in
  the list, comparing by identity; the handler here is the object the call has just
  created, so it is never in the list and is always appended.
\<close>

definition root_addHandler :: "Handler \<Rightarrow> world \<Rightarrow> world" where
  "root_addHandler h w = w\<lparr>root := (root w)\<lparr>handlers := handlers (root w) @ [h]\<rparr>\<rparr>"

definition root_setLevel :: "nat \<Rightarrow> world \<Rightarrow> world" where
  "root_setLevel n w = w\<lparr>root := (root w)\<lparr>level := n\<rparr>\<rparr>"

definition structlog_configure ::
  "Processor list \<Rightarrow> LoggerFactory \<Rightarrow> WrapperClass \<Rightarrow> bool \<Rightarrow> world \<Rightarrow> world" where
  "structlog_configure ps lf wc cache w =
     w\<lparr>structlog := Some \<lparr>cfg_processors = ps, cfg_logger_factory = lf,
                          cfg_wrapper_class = wc, cfg_cache_logger_on_first_use = cache\<rparr>\<rparr>"


definition setup_formatter :: "bool \<Rightarrow> Formatter" where
  "setup_formatter json_format =
     ProcessorFormatter (shared_processors json_format)
       [remove_processors_meta, log_renderer json_format]"

definition setup_handler :: "bool \<Rightarrow> Handler" where
  "setup_handler json_format = StreamHandler (Some (setup_formatter json_format))"

text \<open>
  \<^verbatim>\<open>setup_logging\<close>, statement by statement, with the two module constants it reads as
  arguments; \<open>setup_logging\<close> itself is the instance at the constants' values. The two
  \<^verbatim>\<open>for\<close> loops are folds over their lists; the body of the second one does not use its
  loop variable: it takes \<^verbatim>\<open>logging.getLogger(__name__)\<close> and sets its flag to False.
\<close>

definition setup_logging_with :: "string \<Rightarrow> bool \<Rightarrow> world \<Rightarrow> py_error + world" where
  "setup_logging_with log_level json_format w0 =
     (let w1 = structlog_configure (shared_processors json_format @ [wrap_for_formatter])
                 stdlib_LoggerFactory stdlib_BoundLogger True w0;
          w2 = root_addHandler (setup_handler json_format) w1
      in case checkLevel (upper log_level) of
           Inl e \<Rightarrow> Inl e
         | Inr n \<Rightarrow>
            (let w3 = root_setLevel n w2;
                 w4 = fold (\<lambda>log w. set_propagate log True (handlers_clear log w))
                        [''uvicorn'', ''uvicorn.error''] w3;
                 w5 = set_propagate ''uvicorn.access'' False
                        (handlers_clear ''uvicorn.access'' w4);
                 w6 = set_propagate ''pymongo.topology'' False
                        (handlers_clear ''pymongo.topology'' w5);
                 w7 = fold (\<lambda>log w. set_propagate dunder_name False w)
                        [''taskiq'', ''taskiq.worker'', ''taskiq.broker'',
                         ''taskiq.scheduler''] w6
             in Inr (w7\<lparr>excepthook := handle_exception_hook\<rparr>)))"

definition setup_logging :: "world \<Rightarrow> py_error + world" where
  "setup_logging w = setup_logging_with LOG_LEVEL LOG_JSON_FORMAT w"

text \<open>What a configured process uses: the root logger's level and the renderer of the
  handler that \<open>setup_logging\<close> added last.\<close>

definition minimum_level :: "world \<Rightarrow> nat" where
  "minimum_level w = level (root w)"

definition render_mode :: "world \<Rightarrow> RenderMode option" where
  "render_mode w =
     (if handlers (root w) = [] then None
      else (case formatter (last (handlers (root w))) of
              None \<Rightarrow> None
            | Some fmt \<Rightarrow>
               if processors fmt = [] then None
               else render_mode_of (last (processors fmt))))"

section \<open>The exception hook\<close>

text \<open>
  A \<^verbatim>\<open>LogRecord\<close> of the standard library: the logger's name, the numeric level, the
  message with its arguments merged in (\<^verbatim>\<open>record.getMessage()\<close>), the \<^verbatim>\<open>exc_info\<close> given
  to the call, and the attributes that the call's \<^verbatim>\<open>extra\<close> dictionary added to the
  record, in order.
\<close>

record LogRecord =
  rec_name :: string
  levelno :: nat
  msg :: string
  rec_exc_info :: "exc_info option"
  rec_extra :: EventDict

text \<open>
  What a call of a hook does, as far as an observer outside sees it: it calls another
  hook with three arguments, or it hands one log record to the root logger.
\<close>

datatype effect = HookCalled Hook exc_info | RecordHandled LogRecord

text \<open>
  \<^verbatim>\<open>Logger.isEnabledFor\<close> for the root logger, which has no parent: its effective level
  is its own. The manager-wide threshold of \<^verbatim>\<open>logging.disable\<close> is at its default, which
  blocks nothing, and no code of the repository changes it.
\<close>

definition isEnabledFor :: "Logger \<Rightarrow> nat \<Rightarrow> bool" where
  "isEnabledFor lg lvl = (level lg \<le> lvl)"

text \<open>\<^verbatim>\<open>root_logger.critical(msg, exc_info=...)\<close>: CRITICAL is 50.\<close>

definition critical_record :: "string \<Rightarrow> exc_info \<Rightarrow> LogRecord" where
  "critical_record m ei =
     \<lparr>rec_name = ''root'', levelno = 50, msg = m, rec_exc_info = Some ei, rec_extra = []\<rparr>"

definition root_critical :: "world \<Rightarrow> string \<Rightarrow> exc_info \<Rightarrow> effect list" where
  "root_critical w m ei =
     (if isEnabledFor (root w) 50 then [RecordHandled (critical_record m ei)] else [])"

text \<open>The handlers a record handled by the root logger is passed to, in order.\<close>

definition root_callHandlers :: "world \<Rightarrow> LogRecord \<Rightarrow> (Handler \<times> LogRecord) list" where
  "root_callHandlers w r = map (\<lambda>h. (h, r)) (handlers (root w))"

definition handle_exception :: "world \<Rightarrow> exc_info \<Rightarrow> effect list" where
  "handle_exception w ei =
     (if issubclass (exc_type ei) ''KeyboardInterrupt''
      then [HookCalled builtin_excepthook ei]
      else root_critical w ''Uncaught exception'' ei)"

fun invoke_hook :: "world \<Rightarrow> Hook \<Rightarrow> exc_info \<Rightarrow> effect list" where
  "invoke_hook w handle_exception_hook ei = handle_exception w ei"
| "invoke_hook w h ei = [HookCalled h ei]"

text \<open>The interpreter calls \<^verbatim>\<open>sys.excepthook\<close> with an exception. In
  \<open>uncaught_after_setup\<close> this happens in the state that \<open>setup_logging\<close> leaves.\<close>

definition uncaught_exception :: "world \<Rightarrow> exc_info \<Rightarrow> effect list" where
  "uncaught_exception w ei = invoke_hook w (excepthook w) ei"

definition uncaught_after_setup :: "world \<Rightarrow> exc_info \<Rightarrow> py_error + effect list" where
  "uncaught_after_setup w ei =
     (case setup_logging w of Inl e \<Rightarrow> Inl e | Inr w' \<Rightarrow> Inr (uncaught_exception w' ei))"

text \<open>
  An exception reaches the top of the call stack. The interpreter calls
  \<^verbatim>\<open>sys.excepthook\<close> for every exception but \<^verbatim>\<open>SystemExit\<close> (and its subclasses), on
  which it exits without calling the hook.
\<close>

definition toplevel_exception :: "world \<Rightarrow> exc_info \<Rightarrow> effect list" where
  "toplevel_exception w ei =
     (if issubclass (exc_type ei) ''SystemExit'' then [] else uncaught_exception w ei)"

definition toplevel_after_setup :: "world \<Rightarrow> exc_info \<Rightarrow> py_error + effect list" where
  "toplevel_after_setup w ei =
     (case setup_logging w of Inl e \<Rightarrow> Inl e | Inr w' \<Rightarrow> Inr (toplevel_exception w' ei))"

section \<open>Running the program's start-up\<close>

text \<open>
  \<^verbatim>\<open>main.py\<close> imports \<^verbatim>\<open>task_test\<close>, which imports \<^verbatim>\<open>tkq\<close>; \<^verbatim>\<open>tkq.py\<close> calls
  \<^verbatim>\<open>setup_logging()\<close> at import, and \<^verbatim>\<open>main.py\<close> then calls it again: two calls in a row.
\<close>

definition setup_twice :: "world \<Rightarrow> py_error + world" where
  "setup_twice w =
     (case setup_logging w of Inl e \<Rightarrow> Inl e | Inr w' \<Rightarrow> setup_logging w')"

text \<open>The handlers that a record handled by the root logger is passed to after the
  start-up's two calls.\<close>

definition startup_deliveries ::
  "world \<Rightarrow> LogRecord \<Rightarrow> py_error + (Handler \<times> LogRecord) list" where
  "startup_deliveries w r =
     (case setup_twice w of Inl e \<Rightarrow> Inl e | Inr w' \<Rightarrow> Inr (root_callHandlers w' r))"

text \<open>Observations of the state that \<open>setup_logging\<close> leaves: a named logger, and the
  pair of minimum level and render mode in use.\<close>

definition logger_after_setup :: "world \<Rightarrow> string \<Rightarrow> py_error + Logger" where
  "logger_after_setup w name =
     (case setup_logging w of Inl e \<Rightarrow> Inl e | Inr w' \<Rightarrow> Inr (getLogger w' name))"

definition configured_options :: "world \<Rightarrow> py_error + nat \<times> RenderMode option" where
  "configured_options w =
     (case setup_logging w of
        Inl e \<Rightarrow> Inl e
      | Inr w' \<Rightarrow> Inr (minimum_level w', render_mode w'))"

text \<open>
  The two options as the specification reads them off the settings object: the
  numeric value of the configured level, and STRUCTURED exactly when the JSON flag is
  set. This definition follows the specification, not \<^verbatim>\<open>log.py\<close>, which never reads the
  settings object.
\<close>

definition spec_settings_options :: "Settings \<Rightarrow> py_error + nat \<times> RenderMode option" where
  "spec_settings_options s =
     (case checkLevel (LogLevel_value (Settings_LOG_LEVEL s)) of
        Inl e \<Rightarrow> Inl e
      | Inr n \<Rightarrow> Inr (n, Some (if Settings_LOG_JSON_FORMAT s then STRUCTURED else HUMAN)))"

section \<open>Concrete process states and exceptions\<close>

text \<open>A process whose settings ask for level DEBUG and JSON output.\<close>

definition debug_json_world :: world where
  "debug_json_world =
     fresh_world (Settings_defaults\<lparr>Settings_LOG_LEVEL := DEBUG,
                                    Settings_LOG_JSON_FORMAT := True\<rparr>)"

text \<open>A process in which the logger \<^verbatim>\<open>taskiq\<close> already has a handler of its own and
  does not propagate.\<close>

definition taskiq_world :: world where
  "taskiq_world =
     (fresh_world Settings_defaults)
       \<lparr>loggerDict := (\<lambda>name. None)
          (''taskiq'' \<mapsto> \<lparr>handlers = [StreamHandler None], propagate = False, level = 0\<rparr>)\<rparr>"

text \<open>A process in which other code installed an exception hook before
  \<open>setup_logging\<close> runs.\<close>

definition prior_hook_world :: world where
  "prior_hook_world = (fresh_world Settings_defaults)\<lparr>excepthook := other_hook ''prior''\<rparr>"

definition keyboard_interrupt :: exc_info where
  "keyboard_interrupt =
     \<lparr>exc_type = [''KeyboardInterrupt'', ''BaseException'', ''object''],
      exc_value = [], exc_traceback = None\<rparr>"

definition value_error :: exc_info where
  "value_error =
     \<lparr>exc_type = [''ValueError'', ''Exception'', ''BaseException'', ''object''],
      exc_value = ''bad value'',
      exc_traceback = Some [''File main.py, line 12, in main'']\<rparr>"

definition system_exit :: exc_info where
  "system_exit =
     \<lparr>exc_type = [''SystemExit'', ''BaseException'', ''object''],
      exc_value = ''1'', exc_traceback = None\<rparr>"

section \<open>The two ways a record reaches the renderer\<close>

text \<open>
  structlog's processors, renderers and formatter are not code of this repository;
  the model follows the library's documented behaviour as far as the program depends on
  it.

  An entry reaches the formatter of a handler either from a structlog logger (the
  native path) or from a logger of the standard library (the foreign path). On a
  foreign entry the formatter stores the \<^verbatim>\<open>LogRecord\<close> in the event dictionary, under a
  bookkeeping key, so that the processors of the \<^verbatim>\<open>foreign_pre_chain\<close> can read it; on the
  native path the processors run before any record exists. Here the record is kept
  beside the dictionary: a processor gets \<open>Some r\<close> on a foreign entry and \<open>None\<close> on a
  native one.

  The behaviour of the library's processors is a parameter: \<open>lib\<close> gives, for a
  processor, the function from the record (if any), the logger's name, the method name
  and the event dictionary to the next event dictionary (\<open>None\<close> when the processor
  raises or drops the event), and \<open>rnd\<close> gives a renderer's text. Five processors are
  fixed. The two of \<^verbatim>\<open>log.py\<close> run as defined above. \<^verbatim>\<open>ExtraAdder\<close> copies the record's
  extra attributes into the event dictionary, one assignment per attribute, and does
  nothing without a record. \<^verbatim>\<open>wrap_for_formatter\<close> hands the event dictionary on to the
  standard library's logger unchanged, and \<^verbatim>\<open>remove_processors_meta\<close> deletes only the
  bookkeeping keys, which are not in the dictionary here.
\<close>

type_synonym library =
  "Processor \<Rightarrow> LogRecord option \<Rightarrow> string \<Rightarrow> string \<Rightarrow> EventDict \<Rightarrow> EventDict option"

type_synonym renderers = "Processor \<Rightarrow> string \<Rightarrow> string \<Rightarrow> EventDict \<Rightarrow> string"

definition copy_extras :: "EventDict \<Rightarrow> EventDict \<Rightarrow> EventDict" where
  "copy_extras extras ed = fold (\<lambda>kv d. dict_setitem (fst kv) (snd kv) d) extras ed"

fun apply_processor ::
  "library \<Rightarrow> int \<Rightarrow> LogRecord option \<Rightarrow> Processor \<Rightarrow> string \<Rightarrow> string \<Rightarrow> EventDict
     \<Rightarrow> EventDict option" where
  "apply_processor lib getpid rec Proc_set_process_id lg m ed =
     Some (set_process_id getpid lg m ed)"
| "apply_processor lib getpid rec Proc_drop_color_message_key lg m ed =
     Some (drop_color_message_key lg m ed)"
| "apply_processor lib getpid rec ExtraAdder lg m ed =
     Some (case rec of None \<Rightarrow> ed | Some r \<Rightarrow> copy_extras (rec_extra r) ed)"
| "apply_processor lib getpid rec wrap_for_formatter lg m ed = Some ed"
| "apply_processor lib getpid rec remove_processors_meta lg m ed = Some ed"
| "apply_processor lib getpid rec p lg m ed = lib p rec lg m ed"

fun run_chain ::
  "library \<Rightarrow> int \<Rightarrow> LogRecord option \<Rightarrow> Processor list \<Rightarrow> string \<Rightarrow> string \<Rightarrow> EventDict
     \<Rightarrow> EventDict option" where
  "run_chain lib getpid rec [] lg m ed = Some ed"
| "run_chain lib getpid rec (p # ps) lg m ed =
     (case apply_processor lib getpid rec p lg m ed of
        None \<Rightarrow> None
      | Some ed' \<Rightarrow> run_chain lib getpid rec ps lg m ed')"

text \<open>
  The formatter's own list: every processor but the last transforms the event
  dictionary, the last one renders it. An empty list renders nothing.
\<close>

fun run_to_text ::
  "library \<Rightarrow> renderers \<Rightarrow> int \<Rightarrow> LogRecord option \<Rightarrow> Processor list \<Rightarrow> string \<Rightarrow> string
     \<Rightarrow> EventDict \<Rightarrow> string option" where
  "run_to_text lib rnd getpid rec [] lg m ed = None"
| "run_to_text lib rnd getpid rec [p] lg m ed = Some (rnd p lg m ed)"
| "run_to_text lib rnd getpid rec (p # q # ps) lg m ed =
     (case apply_processor lib getpid rec p lg m ed of
        None \<Rightarrow> None
      | Some ed' \<Rightarrow> run_to_text lib rnd getpid rec (q # ps) lg m ed')"

text \<open>
  A call on a structlog logger, \<^verbatim>\<open>logger.info(event, **kw)\<close>: the logger's name, the
  method name, the event text and the keyword fields. The event dictionary that enters
  the chain holds the keyword fields, then the event (no values are bound to the
  program's loggers).
\<close>

record structlog_call =
  call_logger :: string
  call_method :: string
  call_event :: string
  call_kw :: EventDict

definition call_event_dict :: "structlog_call \<Rightarrow> EventDict" where
  "call_event_dict c = dict_setitem ''event'' (PyStr (call_event c)) (call_kw c)"

text \<open>
  A foreign entry: the formatter builds the event dictionary from the record, with
  the message as the event and the record's \<^verbatim>\<open>exc_info\<close> when it has one; the method
  name is the record's level name in lower case. The record's extra attributes are not
  in this dictionary: they stay in the record.
\<close>

fun show_nat :: "nat \<Rightarrow> string" where
  "show_nat n =
     (if n < 10 then [''0123456789'' ! n]
      else show_nat (n div 10) @ [''0123456789'' ! (n mod 10)])"

declare show_nat.simps [simp del]

definition getLevelName :: "nat \<Rightarrow> string" where
  "getLevelName n =
     (if n = 50 then ''CRITICAL'' else if n = 40 then ''ERROR''
      else if n = 30 then ''WARNING'' else if n = 20 then ''INFO''
      else if n = 10 then ''DEBUG'' else if n = 0 then ''NOTSET''
      else ''Level '' @ show_nat n)"

definition lower_char :: "char \<Rightarrow> char" where
  "lower_char c =
     (case map_of (zip ''ABCDEFGHIJKLMNOPQRSTUVWXYZ'' ''abcdefghijklmnopqrstuvwxyz'') c of
        None \<Rightarrow> c
      | Some d \<Rightarrow> d)"

definition lower :: "string \<Rightarrow> string" where
  "lower s = map lower_char s"

definition record_method_name :: "LogRecord \<Rightarrow> string" where
  "record_method_name r = lower (getLevelName (levelno r))"

definition record_event_dict :: "LogRecord \<Rightarrow> EventDict" where
  "record_event_dict r =
     (''event'', PyStr (msg r))
     # (case rec_exc_info r of None \<Rightarrow> [] | Some ei \<Rightarrow> [(''exc_info'', PyExcInfo ei)])"

text \<open>
  \<^verbatim>\<open>ProcessorFormatter.format\<close>, as the comments of the source describe it: the
  \<^verbatim>\<open>foreign_pre_chain\<close> runs only on entries that do not originate within structlog,
  the \<^verbatim>\<open>processors\<close> run on all entries after that. A structlog entry arrives with the
  event dictionary that the configured chain produced.
\<close>

datatype entry = from_structlog string string EventDict | foreign LogRecord

fun ProcessorFormatter_format ::
  "library \<Rightarrow> renderers \<Rightarrow> int \<Rightarrow> Formatter \<Rightarrow> entry \<Rightarrow> string option" where
  "ProcessorFormatter_format lib rnd getpid fmt (from_structlog lg m ed) =
     run_to_text lib rnd getpid None (processors fmt) lg m ed"
| "ProcessorFormatter_format lib rnd getpid fmt (foreign r) =
     (case run_chain lib getpid (Some r) (foreign_pre_chain fmt)
             (rec_name r) (record_method_name r) (record_event_dict r) of
        None \<Rightarrow> None
      | Some ed' \<Rightarrow>
          run_to_text lib rnd getpid (Some r) (processors fmt)
            (rec_name r) (record_method_name r) ed')"


definition foreign_log ::
  "library \<Rightarrow> renderers \<Rightarrow> int \<Rightarrow> Formatter \<Rightarrow> LogRecord \<Rightarrow> string option" where
  "foreign_log lib rnd getpid fmt r = ProcessorFormatter_format lib rnd getpid fmt (foreign r)"

text \<open>
  What the handlers of the root logger write for a record that the root logger
  handles: a handler with a formatter writes the formatter's text, a handler without one
  the standard library's default text, \<open>dflt\<close>.
\<close>

definition handler_emit ::
  "library \<Rightarrow> renderers \<Rightarrow> (LogRecord \<Rightarrow> string) \<Rightarrow> int \<Rightarrow> Handler \<Rightarrow> LogRecord
     \<Rightarrow> string option" where
  "handler_emit lib rnd dflt getpid h r =
     (case formatter h of
        None \<Rightarrow> Some (dflt r)
      | Some fmt \<Rightarrow> foreign_log lib rnd getpid fmt r)"

definition root_emit ::
  "library \<Rightarrow> renderers \<Rightarrow> (LogRecord \<Rightarrow> string) \<Rightarrow> int \<Rightarrow> world \<Rightarrow> LogRecord
     \<Rightarrow> string option list" where
  "root_emit lib rnd dflt getpid w r =
     map (\<lambda>hr. handler_emit lib rnd dflt getpid (fst hr) (snd hr)) (root_callHandlers w r)"

section \<open>Instances of the library for concrete runs\<close>

text \<open>A library in which every processor that is a parameter returns the event
  dictionary as it is.\<close>

definition passthrough_library :: library where
  "passthrough_library p rec lg m ed = Some ed"

text \<open>
  A renderer that prints every field as \<^verbatim>\<open>key=value\<close>, in the order of the dictionary.
  It stands for the library's renderers in the one respect that matters below: the text
  shows the value of every field.
\<close>

definition show_int :: "int \<Rightarrow> string" where
  "show_int i = (if i < 0 then CHR ''-'' # show_nat (nat (- i)) else show_nat (nat i))"

fun py_repr :: "py_value \<Rightarrow> string" where
  "py_repr PyNone = ''None''"
| "py_repr (PyBool b) = (if b then ''True'' else ''False'')"
| "py_repr (PyInt i) = show_int i"
| "py_repr (PyStr s) = s"
| "py_repr (PyList vs) = concat (map py_repr vs)"
| "py_repr (PyExcInfo ei) = exc_value ei"

fun kv_text :: "EventDict \<Rightarrow> string" where
  "kv_text [] = []"
| "kv_text [(k, v)] = k @ ''='' @ py_repr v"
| "kv_text ((k, v) # kv # d) = k @ ''='' @ py_repr v @ '' '' @ kv_text (kv # d)"

definition kv_renderer :: renderers where
  "kv_renderer p lg m ed = kv_text ed"

definition message_only :: "LogRecord \<Rightarrow> string" where
  "message_only r = msg r"

text \<open>
  The same fields on the two paths: a call on the structlog logger \<^verbatim>\<open>app.main\<close>,
  \<^verbatim>\<open>logger.info("x", process_id=7)\<close>, and the record of the standard library's call
  \<^verbatim>\<open>logging.getLogger("app.main").info("x", extra={"process_id": 7})\<close>; and the pair
  without the field.
\<close>

definition field_call :: structlog_call where
  "field_call =
     \<lparr>call_logger = ''app.main'', call_method = ''info'', call_event = ''x'',
      call_kw = [(''process_id'', PyInt 7)]\<rparr>"

definition field_record :: LogRecord where
  "field_record =
     \<lparr>rec_name = ''app.main'', levelno = 20, msg = ''x'', rec_exc_info = None,
      rec_extra = [(''process_id'', PyInt 7)]\<rparr>"


definition plain_record :: LogRecord where
  "plain_record =
     \<lparr>rec_name = ''app.main'', levelno = 20, msg = ''x'', rec_exc_info = None,
      rec_extra = []\<rparr>"

section \<open>Properties of the dictionary operations\<close>

lemma dict_keys_simps [simp]:
  "dict_keys [] = []" "dict_keys ((k, v) # d) = k # dict_keys d"
  by (simp_all add: dict_keys_def)

lemma dict_get_setitem_same: "dict_get (dict_setitem k v d) k = Some v"
  by (induction d) auto

lemma dict_get_setitem_other: "k' \<noteq> k \<Longrightarrow> dict_get (dict_setitem k v d) k' = dict_get d k'"
  by (induction d) auto

lemma dict_get_None_iff: "dict_get d k = None \<longleftrightarrow> k \<notin> set (dict_keys d)"
  by (induction d) (auto split: if_splits)

lemma dict_get_pop_other: "k' \<noteq> k \<Longrightarrow> dict_get (dict_pop_default k d) k' = dict_get d k'"
  by (induction d) auto

lemma dict_pop_absent: "k \<notin> set (dict_keys d) \<Longrightarrow> dict_pop_default k d = d"
  by (induction d) auto

lemma filter_absent: "k \<notin> set (dict_keys d) \<Longrightarrow> filter (\<lambda>kv. fst kv \<noteq> k) d = d"
  by (induction d) auto

lemma dict_pop_filter:
  "distinct (dict_keys d) \<Longrightarrow> dict_pop_default k d = filter (\<lambda>kv. fst kv \<noteq> k) d"
  by (induction d) (auto simp: filter_absent)

lemma keys_pop_subset: "set (dict_keys (dict_pop_default k d)) \<subseteq> set (dict_keys d)"
  by (induction d) (auto split: if_splits)

lemma distinct_keys_pop:
  "distinct (dict_keys d) \<Longrightarrow> distinct (dict_keys (dict_pop_default k d))"
proof (induction d)
  case Nil
  then show ?case by simp
next
  case (Cons p d)
  obtain k' v' where p: "p = (k', v')" by (cases p)
  from Cons.prems p have d: "distinct (dict_keys d)" and k': "k' \<notin> set (dict_keys d)"
    by auto
  from k' keys_pop_subset [of k d] have "k' \<notin> set (dict_keys (dict_pop_default k d))"
    by blast
  with p d Cons.IH [OF d] show ?case by simp
qed

lemma wf_dict_pop: "wf_dict d \<Longrightarrow> wf_dict (dict_pop_default k d)"
  using distinct_keys_pop [of d k] by (simp add: wf_dict_def dict_keys_def)

lemma pop_removes_key:
  "distinct (dict_keys d) \<Longrightarrow> k \<notin> set (dict_keys (dict_pop_default k d))"
proof (induction d)
  case Nil
  then show ?case by simp
next
  case (Cons p d)
  obtain k' v' where p: "p = (k', v')" by (cases p)
  with Cons show ?case by auto
qed

lemma keys_setitem: "set (dict_keys (dict_setitem k v d)) = insert k (set (dict_keys d))"
  by (induction d) (auto split: if_splits)

lemma distinct_keys_setitem:
  "distinct (dict_keys d) \<Longrightarrow> distinct (dict_keys (dict_setitem k v d))"
proof (induction d)
  case Nil
  then show ?case by simp
next
  case (Cons p d)
  obtain k' v' where p: "p = (k', v')" by (cases p)
  from Cons.prems p have d: "distinct (dict_keys d)" and k': "k' \<notin> set (dict_keys d)"
    by auto
  show ?case
  proof (cases "k' = k")
    case True
    with p d k' show ?thesis by simp
  next
    case False
    with k' have "k' \<notin> set (dict_keys (dict_setitem k v d))"
      by (simp add: keys_setitem)
    with False p Cons.IH [OF d] show ?thesis by simp
  qed
qed

lemma wf_dict_setitem: "wf_dict d \<Longrightarrow> wf_dict (dict_setitem k v d)"
  using distinct_keys_setitem [of d k v] by (simp add: wf_dict_def dict_keys_def)

section \<open>The state that \<open>setup_logging\<close> leaves\<close>

lemma checkLevel_LOG_LEVEL: "checkLevel (upper LOG_LEVEL) = Inr 20"
  by (simp add: upper_def upper_char_def LOG_LEVEL_def checkLevel_def nameToLevel_def)

text \<open>
  With the level name of the module constant, \<open>setup_logging_with\<close> never raises, and
  its result is the given state with structlog configured, one handler appended to the
  root logger, the root level 20 (INFO), five named loggers rewritten and the hook
  replaced. The four rounds of the last loop all write the same flag of the same
  logger, \<^verbatim>\<open>app.log\<close>.
\<close>

lemma setup_logging_with_state:
  "setup_logging_with LOG_LEVEL json w =
     Inr (w\<lparr>structlog :=
              Some \<lparr>cfg_processors = shared_processors json @ [wrap_for_formatter],
                    cfg_logger_factory = stdlib_LoggerFactory,
                    cfg_wrapper_class = stdlib_BoundLogger,
                    cfg_cache_logger_on_first_use = True\<rparr>,
            root := \<lparr>handlers = handlers (root w) @ [setup_handler json],
                     propagate = propagate (root w), level = 20\<rparr>,
            loggerDict := (loggerDict w)
              (''uvicorn'' \<mapsto>
                 (getLogger w ''uvicorn'')\<lparr>handlers := [], propagate := True\<rparr>,
               ''uvicorn.error'' \<mapsto>
                 (getLogger w ''uvicorn.error'')\<lparr>handlers := [], propagate := True\<rparr>,
               ''uvicorn.access'' \<mapsto>
                 (getLogger w ''uvicorn.access'')\<lparr>handlers := [], propagate := False\<rparr>,
               ''pymongo.topology'' \<mapsto>
                 (getLogger w ''pymongo.topology'')\<lparr>handlers := [], propagate := False\<rparr>,
               ''app.log'' \<mapsto> (getLogger w ''app.log'')\<lparr>propagate := False\<rparr>),
            excepthook := handle_exception_hook\<rparr>)"
  by (simp add: setup_logging_with_def checkLevel_LOG_LEVEL Let_def structlog_configure_def
      root_addHandler_def root_setLevel_def handlers_clear_def set_propagate_def getLogger_def
      dunder_name_def)

lemmas setup_logging_state =
  setup_logging_with_state [of LOG_JSON_FORMAT, folded setup_logging_def]

lemma setup_logging_returns: "\<exists>w'. setup_logging w = Inr w'"
  by (simp add: setup_logging_state)

section \<open>Running a chain\<close>

lemma run_chain_append:
  "run_chain lib pid rec (ps @ qs) lg m ed =
     (case run_chain lib pid rec ps lg m ed of
        None \<Rightarrow> None
      | Some ed' \<Rightarrow> run_chain lib pid rec qs lg m ed')"
  by (induction ps arbitrary: ed) (auto split: option.splits)






lemma foreign_log_setup:
  "foreign_log lib rnd pid (setup_formatter json) r =
     map_option (rnd (log_renderer json) (rec_name r) (record_method_name r))
       (run_chain lib pid (Some r) (shared_processors json)
          (rec_name r) (record_method_name r) (record_event_dict r))"
  by (simp add: foreign_log_def setup_formatter_def split: option.splits)



text \<open>
  Copying extra attributes into an event dictionary: a key that is not among them
  keeps its value, a key that is among them gets the attribute's value, and what a key
  holds afterwards depends on what it held before only.
\<close>

lemma dict_get_copy_extras_absent:
  "k \<notin> set (dict_keys extras) \<Longrightarrow> dict_get (copy_extras extras d) k = dict_get d k"
proof (induction extras arbitrary: d)
  case Nil
  then show ?case by (simp add: copy_extras_def)
next
  case (Cons kv extras)
  obtain a b where kv: "kv = (a, b)" by (cases kv)
  from Cons.prems kv have ne: "k \<noteq> a" and k: "k \<notin> set (dict_keys extras)" by auto
  have "copy_extras (kv # extras) d = copy_extras extras (dict_setitem a b d)"
    by (simp add: copy_extras_def kv)
  with Cons.IH [OF k] ne show ?case by (simp add: dict_get_setitem_other)
qed

lemma dict_get_copy_extras_present:
  "distinct (dict_keys extras) \<Longrightarrow> dict_get extras k = Some v \<Longrightarrow>
   dict_get (copy_extras extras d) k = Some v"
proof (induction extras arbitrary: d)
  case Nil
  then show ?case by simp
next
  case (Cons kv extras)
  obtain a b where kv: "kv = (a, b)" by (cases kv)
  have step: "copy_extras (kv # extras) d = copy_extras extras (dict_setitem a b d)"
    by (simp add: copy_extras_def kv)
  from Cons.prems kv have dist: "distinct (dict_keys extras)" and a: "a \<notin> set (dict_keys extras)"
    by auto
  show ?case
  proof (cases "a = k")
    case True
    with Cons.prems kv have "v = b" by simp
    with True a step show ?thesis
      by (simp add: dict_get_copy_extras_absent dict_get_setitem_same)
  next
    case False
    with Cons.prems kv have "dict_get extras k = Some v" by simp
    from Cons.IH [OF dist this] step show ?thesis by simp
  qed
qed

text \<open>
  A chain without the process-id stage, run where \<^verbatim>\<open>ExtraAdder\<close> has no record to copy
  from or is not in the chain, leaves the key \<^verbatim>\<open>process_id\<close> as it found it, when the
  library's processors do.
\<close>

lemma run_chain_keeps_process_id:
  assumes lib: "\<And>p rec lg m d d'. p \<noteq> ExtraAdder \<Longrightarrow> lib p rec lg m d = Some d' \<Longrightarrow>
                  dict_get d' ''process_id'' = dict_get d ''process_id''"
  shows "Proc_set_process_id \<notin> set ps \<Longrightarrow> ExtraAdder \<notin> set ps \<or> rec = None \<Longrightarrow>
         run_chain lib pid rec ps lg m ed = Some ed' \<Longrightarrow>
         dict_get ed' ''process_id'' = dict_get ed ''process_id''"
proof (induction ps arbitrary: ed)
  case Nil
  then show ?case by simp
next
  case (Cons p ps)
  from Cons.prems obtain d where d: "apply_processor lib pid rec p lg m ed = Some d"
    and r: "run_chain lib pid rec ps lg m d = Some ed'"
    by (auto split: option.splits)
  from Cons.prems have p: "p \<noteq> Proc_set_process_id" and ps: "Proc_set_process_id \<notin> set ps"
    and ea: "p \<noteq> ExtraAdder \<or> rec = None" and eas: "ExtraAdder \<notin> set ps \<or> rec = None"
    by auto
  have "dict_get d ''process_id'' = dict_get ed ''process_id''"
    using d p ea lib [of p rec lg m ed d]
    by (cases p) (auto simp: drop_color_message_key_def dict_get_pop_other)
  with Cons.IH [OF ps eas r] show ?case by simp
qed

lemma dict_get_copy_extras_cong:
  "dict_get d k = dict_get d' k \<Longrightarrow>
   dict_get (copy_extras extras d) k = dict_get (copy_extras extras d') k"
proof (induction extras arbitrary: d d')
  case Nil
  then show ?case by (simp add: copy_extras_def)
next
  case (Cons kv extras)
  obtain a b where kv: "kv = (a, b)" by (cases kv)
  have step: "\<And>e. copy_extras (kv # extras) e = copy_extras extras (dict_setitem a b e)"
    by (simp add: copy_extras_def kv)
  have "dict_get (dict_setitem a b d) k = dict_get (dict_setitem a b d') k"
    using Cons.prems
    by (cases "a = k") (simp_all add: dict_get_setitem_same dict_get_setitem_other)
  from Cons.IH [OF this] step show ?case by simp
qed

lemma shared_chain_process_id:
  assumes lib: "\<And>p rec lg m d d'. p \<noteq> ExtraAdder \<Longrightarrow> lib p rec lg m d = Some d' \<Longrightarrow>
                  dict_get d' ''process_id'' = dict_get d ''process_id''"
    and run: "run_chain lib pid rec (shared_processors json) lg m ed = Some ed'"
  shows "dict_get ed' ''process_id'' =
         dict_get (case rec of None \<Rightarrow> [(''process_id'', PyInt pid)]
                   | Some r \<Rightarrow> copy_extras (rec_extra r) [(''process_id'', PyInt pid)])
           ''process_id''"
proof -
  define pre where "pre = [merge_contextvars, add_logger_name]"
  define mid where "mid = [add_log_level, PositionalArgumentsFormatter]"
  define post where
    "post = [Proc_drop_color_message_key, TimeStamper ''iso'', StackInfoRenderer,
             UnicodeDecoder, CallsiteParameterAdder [FILENAME, FUNC_NAME, LINENO]]
            @ (if json then [format_exc_info] else [])"
  have sp: "shared_processors json = pre @ Proc_set_process_id # mid @ ExtraAdder # post"
    by (simp add: shared_processors_def pre_def mid_def post_def)
  have mid_ok: "Proc_set_process_id \<notin> set mid" "ExtraAdder \<notin> set mid"
    by (simp_all add: mid_def)
  have post_ok: "Proc_set_process_id \<notin> set post" "ExtraAdder \<notin> set post"
    by (simp_all add: post_def)
  define added where
    "added = (\<lambda>d. case rec of None \<Rightarrow> d | Some r \<Rightarrow> copy_extras (rec_extra r) d)"
  from run obtain d0 d1 where
    mid: "run_chain lib pid rec mid lg m (set_process_id pid lg m d0) = Some d1"
    and post: "run_chain lib pid rec post lg m (added d1) = Some ed'"
    unfolding sp run_chain_append run_chain.simps apply_processor.simps added_def
    by (auto split: option.splits)
  have 1: "dict_get d1 ''process_id'' = Some (PyInt pid)"
    using run_chain_keeps_process_id [of lib mid rec pid lg m _ d1, OF lib mid_ok(1) _ mid] mid_ok
    by (simp add: set_process_id_def dict_get_setitem_same)
  have 2: "dict_get ed' ''process_id'' = dict_get (added d1) ''process_id''"
    using run_chain_keeps_process_id [of lib post rec pid lg m _ ed', OF lib post_ok(1) _ post]
      post_ok
    by simp
  have 3: "dict_get d1 ''process_id'' = dict_get [(''process_id'', PyInt pid)] ''process_id''"
    using 1 by simp
  show ?thesis
  proof (cases rec)
    case None
    with 1 2 show ?thesis by (simp add: added_def)
  next
    case (Some r)
    with 2 dict_get_copy_extras_cong [OF 3, of "rec_extra r"] show ?thesis
      by (simp add: added_def)
  qed
qed

section \<open>The claims\<close>

text \<open>
  C1. After \<^verbatim>\<open>setup_logging\<close>, the loggers \<^verbatim>\<open>taskiq\<close>, \<^verbatim>\<open>taskiq.worker\<close>, \<^verbatim>\<open>taskiq.broker\<close>
  and \<^verbatim>\<open>taskiq.scheduler\<close> are said to have their handlers cleared and to propagate to
  the root logger. The loop over these four names never uses the name: in a process
  where \<^verbatim>\<open>taskiq\<close> has a handler of its own and does not propagate, the logger is the
  same after \<^verbatim>\<open>setup_logging\<close>, handler and flag included, and the logger that lost its
  propagation is \<^verbatim>\<open>app.log\<close>, the module's own.
\<close>

theorem C1_taskiq_logger_untouched:
  "logger_after_setup taskiq_world ''taskiq'' =
     Inr \<lparr>handlers = [StreamHandler None], propagate = False, level = 0\<rparr>
   \<and> getLogger taskiq_world ''taskiq'' =
     \<lparr>handlers = [StreamHandler None], propagate = False, level = 0\<rparr>
   \<and> logger_after_setup taskiq_world ''app.log'' =
     Inr \<lparr>handlers = [], propagate = False, level = 0\<rparr>"
  by (simp add: logger_after_setup_def setup_logging_state taskiq_world_def fresh_world_def
      getLogger_def new_Logger_def)

text \<open>
  In every state the four loggers are what they were before the call, while the
  other prefixes of the policy are rewritten: \<^verbatim>\<open>uvicorn\<close> and \<^verbatim>\<open>uvicorn.error\<close> lose their
  handlers and propagate, \<^verbatim>\<open>uvicorn.access\<close> and \<^verbatim>\<open>pymongo.topology\<close> lose their handlers
  and are silenced.
\<close>

lemma taskiq_loggers_unchanged:
  "\<exists>w'. setup_logging w = Inr w'
     \<and> loggerDict w' ''taskiq'' = loggerDict w ''taskiq''
     \<and> loggerDict w' ''taskiq.worker'' = loggerDict w ''taskiq.worker''
     \<and> loggerDict w' ''taskiq.broker'' = loggerDict w ''taskiq.broker''
     \<and> loggerDict w' ''taskiq.scheduler'' = loggerDict w ''taskiq.scheduler''"
  by (simp add: setup_logging_state)

theorem namespace_policy_applied:
  "\<exists>w'. setup_logging w = Inr w'
     \<and> handlers (getLogger w' ''uvicorn'') = [] \<and> propagate (getLogger w' ''uvicorn'')
     \<and> handlers (getLogger w' ''uvicorn.error'') = []
     \<and> propagate (getLogger w' ''uvicorn.error'')
     \<and> handlers (getLogger w' ''uvicorn.access'') = []
     \<and> \<not> propagate (getLogger w' ''uvicorn.access'')
     \<and> handlers (getLogger w' ''pymongo.topology'') = []
     \<and> \<not> propagate (getLogger w' ''pymongo.topology'')"
  by (simp add: setup_logging_state getLogger_def)

text \<open>
  C2. The minimum level and the render mode that \<^verbatim>\<open>setup_logging\<close> uses are said to be
  the two options of the settings object. With settings that ask for DEBUG and JSON
  output, the configured process has level 20 (INFO) and the HUMAN renderer.
\<close>

theorem C2_settings_ignored_counterexample:
  "configured_options debug_json_world = Inr (20, Some HUMAN)
   \<and> spec_settings_options (settings debug_json_world) = Inr (10, Some STRUCTURED)
   \<and> configured_options debug_json_world \<noteq> spec_settings_options (settings debug_json_world)"
  by (simp add: configured_options_def setup_logging_state debug_json_world_def
      fresh_world_def minimum_level_def render_mode_def setup_handler_def setup_formatter_def
      log_renderer_def LOG_JSON_FORMAT_def spec_settings_options_def Settings_defaults_def
      checkLevel_def nameToLevel_def)

text \<open>
  C2, as the code has it: whatever the state, and so whatever the settings object
  holds, \<^verbatim>\<open>setup_logging\<close> returns with the root level 20 (INFO) and the HUMAN renderer,
  the values of the module constants \<^verbatim>\<open>LOG_LEVEL\<close> and \<^verbatim>\<open>LOG_JSON_FORMAT\<close> of \<^verbatim>\<open>log.py\<close>;
  they are the options that the settings' defaults describe.
\<close>

theorem C2_options_are_module_constants:
  "configured_options w = Inr (20, Some HUMAN)
   \<and> checkLevel (upper LOG_LEVEL) = Inr 20
   \<and> render_mode_of (log_renderer LOG_JSON_FORMAT) = Some HUMAN
   \<and> configured_options w = spec_settings_options Settings_defaults"
proof -
  have used: "configured_options w = Inr (20, Some HUMAN)"
    by (simp add: configured_options_def setup_logging_state minimum_level_def render_mode_def
        setup_handler_def setup_formatter_def log_renderer_def LOG_JSON_FORMAT_def)
  have mode: "render_mode_of (log_renderer LOG_JSON_FORMAT) = Some HUMAN"
    by (simp add: log_renderer_def LOG_JSON_FORMAT_def)
  have defaults: "spec_settings_options Settings_defaults = Inr (20, Some HUMAN)"
    by (simp add: spec_settings_options_def Settings_defaults_def checkLevel_def
        nameToLevel_def)
  from used mode defaults checkLevel_LOG_LEVEL show ?thesis
    by simp
qed

text \<open>
  C3. On \<^verbatim>\<open>KeyboardInterrupt\<close> the installed hook is said to call the hook that was
  active just before \<^verbatim>\<open>setup_logging\<close> installed its own. In a process where other code
  had installed a hook, the call goes to the interpreter's built-in hook instead.
\<close>

theorem C3_prior_hook_counterexample:
  "excepthook prior_hook_world = other_hook ''prior''
   \<and> uncaught_after_setup prior_hook_world keyboard_interrupt =
       Inr [HookCalled builtin_excepthook keyboard_interrupt]
   \<and> uncaught_after_setup prior_hook_world keyboard_interrupt \<noteq>
       Inr [HookCalled (excepthook prior_hook_world) keyboard_interrupt]"
  by (simp add: uncaught_after_setup_def setup_logging_state uncaught_exception_def
      handle_exception_def issubclass_def keyboard_interrupt_def prior_hook_world_def
      fresh_world_def)

text \<open>
  C3, as the code has it: for an exception whose class is \<^verbatim>\<open>KeyboardInterrupt\<close> or a
  subclass of it, the installed hook makes one call, of the interpreter's built-in hook
  \<^verbatim>\<open>sys.__excepthook__\<close>, with the three arguments it received, and hands no record to
  any logger.
\<close>

theorem C3_interrupt_delegated_to_builtin:
  "issubclass (exc_type ei) ''KeyboardInterrupt'' \<Longrightarrow>
   uncaught_after_setup w ei = Inr [HookCalled builtin_excepthook ei]"
  by (simp add: uncaught_after_setup_def setup_logging_state uncaught_exception_def
      handle_exception_def)

theorem C3_interrupt_delegated_witness:
  "issubclass (exc_type keyboard_interrupt) ''KeyboardInterrupt''
   \<and> uncaught_after_setup (fresh_world Settings_defaults) keyboard_interrupt =
       Inr [HookCalled builtin_excepthook keyboard_interrupt]"
  using C3_interrupt_delegated_to_builtin [of keyboard_interrupt "fresh_world Settings_defaults"]
  by (simp add: issubclass_def keyboard_interrupt_def)

text \<open>
  C4. Two calls of \<^verbatim>\<open>setup_logging\<close> are said to leave the state of one call. In a
  fresh process the root logger has one handler after one call and two after two.
\<close>

theorem C4_second_call_counterexample:
  "map_sum id (length \<circ> handlers \<circ> root) (setup_logging (fresh_world Settings_defaults)) = Inr 1
   \<and> map_sum id (length \<circ> handlers \<circ> root) (setup_twice (fresh_world Settings_defaults)) = Inr 2
   \<and> setup_twice (fresh_world Settings_defaults) \<noteq> setup_logging (fresh_world Settings_defaults)"
proof -
  have one: "map_sum id (length \<circ> handlers \<circ> root)
               (setup_logging (fresh_world Settings_defaults)) = Inr 1"
    by (simp add: setup_logging_state fresh_world_def)
  have two: "map_sum id (length \<circ> handlers \<circ> root)
               (setup_twice (fresh_world Settings_defaults)) = Inr 2"
    by (simp add: setup_twice_def setup_logging_state fresh_world_def)
  from one two
  have "setup_twice (fresh_world Settings_defaults) \<noteq> setup_logging (fresh_world Settings_defaults)"
    by auto
  with one two show ?thesis by simp
qed

text \<open>
  C4, as the code has it: the second call appends one more handler, equal to the
  first call's, to the root logger and changes nothing else: the structlog
  configuration, the root level, the named loggers and the installed hook (one hook,
  replaced and not chained) are those of the first call.
\<close>

theorem C4_second_call_adds_one_handler:
  "\<exists>w1. setup_logging w = Inr w1
     \<and> setup_twice w = Inr (root_addHandler (setup_handler LOG_JSON_FORMAT) w1)
     \<and> excepthook w1 = handle_exception_hook"
  by (simp add: setup_twice_def setup_logging_state root_addHandler_def getLogger_def)

text \<open>
  C5. The comparison on the level enumeration is said to agree with the order
  NOTSET < DEBUG < INFO < WARNING < ERROR < FATAL. The comparison of two members is
  that of their string values: DEBUG is below NOTSET, and NOTSET is not below DEBUG.
\<close>

theorem C5_NOTSET_DEBUG_counterexample:
  "LogLevel_lt DEBUG NOTSET \<and> \<not> LogLevel_lt NOTSET DEBUG"
  by (simp add: LogLevel_lt_def)

text \<open>
  C5, as the code has it: the enumeration has the six members NOTSET, DEBUG, INFO,
  WARNING, ERROR, FATAL, declared in this order; the comparison it inherits from \<^verbatim>\<open>str\<close>
  is a strict total order on them, and it orders them by their names:
  DEBUG < ERROR < FATAL < INFO < NOTSET < WARNING.
\<close>

theorem C5_LogLevel_order_is_lexicographic:
  "LogLevel_members = [NOTSET, DEBUG, INFO, WARNING, ERROR, FATAL]
   \<and> sorted_wrt LogLevel_lt [DEBUG, ERROR, FATAL, INFO, NOTSET, WARNING]
   \<and> \<not> LogLevel_lt a a
   \<and> (LogLevel_lt a b \<and> LogLevel_lt b c \<longrightarrow> LogLevel_lt a c)
   \<and> (a \<noteq> b \<longrightarrow> LogLevel_lt a b \<or> LogLevel_lt b a)"
proof -
  have irrefl: "\<not> LogLevel_lt a a"
    by (cases a) (simp_all add: LogLevel_lt_def)
  have trans: "LogLevel_lt a b \<and> LogLevel_lt b c \<longrightarrow> LogLevel_lt a c"
    by (cases a; cases b; cases c) (simp_all add: LogLevel_lt_def)
  have total: "a \<noteq> b \<longrightarrow> LogLevel_lt a b \<or> LogLevel_lt b a"
    by (cases a; cases b) (simp_all add: LogLevel_lt_def)
  have chain: "sorted_wrt LogLevel_lt [DEBUG, ERROR, FATAL, INFO, NOTSET, WARNING]"
    by (simp add: LogLevel_lt_def)
  from irrefl trans total chain show ?thesis
    by (simp add: LogLevel_members_def)
qed

theorem C5_LogLevel_order_witness:
  "LogLevel_lt DEBUG INFO \<and> LogLevel_lt INFO WARNING \<and> LogLevel_lt DEBUG WARNING
   \<and> DEBUG \<noteq> INFO \<and> (LogLevel_lt DEBUG INFO \<or> LogLevel_lt INFO DEBUG)"
  using C5_LogLevel_order_is_lexicographic [of DEBUG INFO WARNING]
  by (simp add: LogLevel_lt_def)

text \<open>
  C6. Every exception other than the user interrupt that reaches the top of the call
  stack is said to give exactly one CRITICAL record, rendered through the chain.
  \<^verbatim>\<open>SystemExit\<close> is not a \<^verbatim>\<open>KeyboardInterrupt\<close> and gives no record: the interpreter does
  not call the hook for it. And after the program's start-up, with its two calls of
  \<^verbatim>\<open>setup_logging\<close>, the record of a \<^verbatim>\<open>ValueError\<close> is passed to two handlers, each of
  which renders it.
\<close>

theorem C6_two_failures_counterexample:
  "\<not> issubclass (exc_type system_exit) ''KeyboardInterrupt''
   \<and> toplevel_after_setup (fresh_world Settings_defaults) system_exit = Inr []
   \<and> \<not> issubclass (exc_type value_error) ''KeyboardInterrupt''
   \<and> startup_deliveries (fresh_world Settings_defaults)
        (critical_record ''Uncaught exception'' value_error) =
       Inr [(setup_handler LOG_JSON_FORMAT, critical_record ''Uncaught exception'' value_error),
            (setup_handler LOG_JSON_FORMAT, critical_record ''Uncaught exception'' value_error)]"
  by (simp add: issubclass_def system_exit_def value_error_def toplevel_after_setup_def
      toplevel_exception_def setup_logging_state startup_deliveries_def setup_twice_def
      root_callHandlers_def fresh_world_def)

text \<open>
  C6, as the code has it: for an exception that the interpreter passes to the hook
  (any but \<^verbatim>\<open>SystemExit\<close>) and that is not a \<^verbatim>\<open>KeyboardInterrupt\<close>, the installed hook hands
  exactly one record to the root logger, with level 50 (CRITICAL), the message
  \<^verbatim>\<open>Uncaught exception\<close> and the exception's class, value and traceback as its
  \<^verbatim>\<open>exc_info\<close>; it calls no other hook and does nothing else. Every handler of the root
  logger writes the record once. The handler that \<^verbatim>\<open>setup_logging\<close> added is the last of
  them; what it writes is the renderer's text for the result of the shared processors,
  run as on any foreign entry on the record's message and \<^verbatim>\<open>exc_info\<close>. In a process
  whose root logger had no handler before the call, it is the only handler.
\<close>

theorem C6_uncaught_exception_logged:
  "\<not> issubclass (exc_type ei) ''KeyboardInterrupt'' \<Longrightarrow>
   \<not> issubclass (exc_type ei) ''SystemExit'' \<Longrightarrow>
   toplevel_after_setup w ei = Inr [RecordHandled (critical_record ''Uncaught exception'' ei)]
   \<and> critical_record ''Uncaught exception'' ei =
       \<lparr>rec_name = ''root'', levelno = 50, msg = ''Uncaught exception'',
        rec_exc_info = Some ei, rec_extra = []\<rparr>
   \<and> (\<exists>w'. setup_logging w = Inr w'
         \<and> root_emit lib rnd dflt pid w' (critical_record ''Uncaught exception'' ei) =
             map (\<lambda>h. handler_emit lib rnd dflt pid h (critical_record ''Uncaught exception'' ei))
               (handlers (root w))
             @ [foreign_log lib rnd pid (setup_formatter LOG_JSON_FORMAT)
                  (critical_record ''Uncaught exception'' ei)]
         \<and> (handlers (root w) = [] \<longrightarrow>
              root_emit lib rnd dflt pid w' (critical_record ''Uncaught exception'' ei) =
                [foreign_log lib rnd pid (setup_formatter LOG_JSON_FORMAT)
                   (critical_record ''Uncaught exception'' ei)]))
   \<and> foreign_log lib rnd pid (setup_formatter LOG_JSON_FORMAT)
         (critical_record ''Uncaught exception'' ei) =
       map_option (rnd (log_renderer LOG_JSON_FORMAT) ''root'' ''critical'')
         (run_chain lib pid (Some (critical_record ''Uncaught exception'' ei))
            (shared_processors LOG_JSON_FORMAT) ''root'' ''critical''
            [(''event'', PyStr ''Uncaught exception''), (''exc_info'', PyExcInfo ei)])"
proof -
  assume ki: "\<not> issubclass (exc_type ei) ''KeyboardInterrupt''"
    and se: "\<not> issubclass (exc_type ei) ''SystemExit''"
  let ?r = "critical_record ''Uncaught exception'' ei"
  have hook: "toplevel_after_setup w ei = Inr [RecordHandled ?r]"
    using ki se
    by (simp add: toplevel_after_setup_def toplevel_exception_def setup_logging_state
        uncaught_exception_def handle_exception_def root_critical_def isEnabledFor_def)
  have rec: "?r = \<lparr>rec_name = ''root'', levelno = 50, msg = ''Uncaught exception'',
                    rec_exc_info = Some ei, rec_extra = []\<rparr>"
    by (simp add: critical_record_def)
  have emit: "\<exists>w'. setup_logging w = Inr w'
         \<and> root_emit lib rnd dflt pid w' ?r =
             map (\<lambda>h. handler_emit lib rnd dflt pid h ?r) (handlers (root w))
             @ [foreign_log lib rnd pid (setup_formatter LOG_JSON_FORMAT) ?r]
         \<and> (handlers (root w) = [] \<longrightarrow>
              root_emit lib rnd dflt pid w' ?r =
                [foreign_log lib rnd pid (setup_formatter LOG_JSON_FORMAT) ?r])"
    by (simp add: setup_logging_state root_emit_def root_callHandlers_def handler_emit_def
        setup_handler_def comp_def split: option.splits)
  have m: "record_method_name ?r = ''critical''"
    by (simp add: record_method_name_def critical_record_def getLevelName_def lower_def
        lower_char_def)
  have rendered: "foreign_log lib rnd pid (setup_formatter LOG_JSON_FORMAT) ?r =
       map_option (rnd (log_renderer LOG_JSON_FORMAT) ''root'' ''critical'')
         (run_chain lib pid (Some ?r) (shared_processors LOG_JSON_FORMAT) ''root'' ''critical''
            [(''event'', PyStr ''Uncaught exception''), (''exc_info'', PyExcInfo ei)])"
    unfolding foreign_log_setup m
    by (simp add: record_event_dict_def critical_record_def)
  from hook rec emit rendered show ?thesis by blast
qed

theorem C6_uncaught_exception_witness:
  "\<not> issubclass (exc_type value_error) ''KeyboardInterrupt''
   \<and> \<not> issubclass (exc_type value_error) ''SystemExit''
   \<and> handlers (root (fresh_world Settings_defaults)) = []
   \<and> toplevel_after_setup (fresh_world Settings_defaults) value_error =
       Inr [RecordHandled (critical_record ''Uncaught exception'' value_error)]
   \<and> foreign_log passthrough_library kv_renderer 785 (setup_formatter LOG_JSON_FORMAT)
         (critical_record ''Uncaught exception'' value_error) =
       Some ''event=Uncaught exception exc_info=bad value process_id=785''"
  using C6_uncaught_exception_logged [of value_error "fresh_world Settings_defaults"
      passthrough_library kv_renderer message_only 785]
  by (simp add: issubclass_def value_error_def fresh_world_def passthrough_library_def
      shared_processors_def LOG_JSON_FORMAT_def set_process_id_def drop_color_message_key_def
      copy_extras_def critical_record_def kv_renderer_def show_int_def show_nat.simps)




text \<open>
  C8. After \<^verbatim>\<open>setup_logging\<close>, the chain configured for structlog and the chain given to
  the formatter for foreign entries are the same eleven stages in the order of the
  specification: context variables, logger name, process id, level, positional
  arguments, extra arguments, removal of \<^verbatim>\<open>color_message\<close>, ISO timestamp, stack info,
  unicode decoding, call-site parameters. The exception formatting stage follows them
  exactly when the render mode is STRUCTURED, which is when the JSON flag is set.
\<close>

theorem C8_chain_order:
  "\<exists>w' cfg fmt. setup_logging_with LOG_LEVEL json w = Inr w'
     \<and> structlog w' = Some cfg
     \<and> last (handlers (root w')) = StreamHandler (Some fmt)
     \<and> cfg_processors cfg =
         [merge_contextvars, add_logger_name, Proc_set_process_id, add_log_level,
          PositionalArgumentsFormatter, ExtraAdder, Proc_drop_color_message_key,
          TimeStamper ''iso'', StackInfoRenderer, UnicodeDecoder,
          CallsiteParameterAdder [FILENAME, FUNC_NAME, LINENO]]
         @ (if render_mode w' = Some STRUCTURED then [format_exc_info] else [])
         @ [wrap_for_formatter]
     \<and> foreign_pre_chain fmt =
         [merge_contextvars, add_logger_name, Proc_set_process_id, add_log_level,
          PositionalArgumentsFormatter, ExtraAdder, Proc_drop_color_message_key,
          TimeStamper ''iso'', StackInfoRenderer, UnicodeDecoder,
          CallsiteParameterAdder [FILENAME, FUNC_NAME, LINENO]]
         @ (if render_mode w' = Some STRUCTURED then [format_exc_info] else [])
     \<and> render_mode w' = Some (if json then STRUCTURED else HUMAN)"
  by (simp add: setup_logging_with_state setup_handler_def setup_formatter_def
      shared_processors_def render_mode_def log_renderer_def)

text \<open>
  C9. Every record that has passed through the chain is said to carry the process
  identifier under \<^verbatim>\<open>process_id\<close>. A record of the standard library with the extra
  attribute \<^verbatim>\<open>process_id = 7\<close> leaves the shared chain with the value 7 in a process whose
  identifier is 785: \<^verbatim>\<open>ExtraAdder\<close> runs after the process-id stage.
\<close>

theorem C9_extra_overrides_counterexample:
  "run_chain passthrough_library 785 (Some field_record) (shared_processors LOG_JSON_FORMAT)
     (rec_name field_record) (record_method_name field_record)
     (record_event_dict field_record) =
     Some [(''event'', PyStr ''x''), (''process_id'', PyInt 7)]
   \<and> dict_get [(''event'', PyStr ''x''), (''process_id'', PyInt 7)] ''process_id'' \<noteq>
       Some (PyInt 785)
   \<and> foreign_log passthrough_library kv_renderer 785 (setup_formatter LOG_JSON_FORMAT)
        field_record = Some ''event=x process_id=7''"
  by (simp add: foreign_log_setup field_record_def
      record_method_name_def getLevelName_def lower_def lower_char_def
      passthrough_library_def shared_processors_def LOG_JSON_FORMAT_def set_process_id_def
      drop_color_message_key_def copy_extras_def record_event_dict_def
      kv_renderer_def show_int_def show_nat.simps)

text \<open>
  C9, as the code has it: the process-id stage writes the identifier of the running
  process under \<^verbatim>\<open>process_id\<close>, whatever the record held before, so two calls in the same
  process write the same value. When the library's own processors leave that key as they
  find it, the record that leaves the shared chain carries the process identifier on the
  native path, and on the foreign path unless the \<^verbatim>\<open>LogRecord\<close> has an extra attribute
  named \<^verbatim>\<open>process_id\<close>; then it carries that attribute's value.
\<close>

theorem C9_process_id_by_path:
  "dict_get (set_process_id pid lg1 m1 ed1) ''process_id'' = Some (PyInt pid)
   \<and> dict_get (set_process_id pid lg1 m1 ed1) ''process_id'' =
       dict_get (set_process_id pid lg2 m2 ed2) ''process_id''
   \<and> ((\<forall>p rec lg m d d'. p \<noteq> ExtraAdder \<and> lib p rec lg m d = Some d' \<longrightarrow>
           dict_get d' ''process_id'' = dict_get d ''process_id'') \<longrightarrow>
        (run_chain lib pid None (shared_processors json) lg m ed = Some ed' \<longrightarrow>
           dict_get ed' ''process_id'' = Some (PyInt pid))
        \<and> (run_chain lib pid (Some r) (shared_processors json) lg m ed = Some ed'
            \<and> ''process_id'' \<notin> set (dict_keys (rec_extra r)) \<longrightarrow>
           dict_get ed' ''process_id'' = Some (PyInt pid))
        \<and> (run_chain lib pid (Some r) (shared_processors json) lg m ed = Some ed'
            \<and> wf_dict (rec_extra r) \<and> dict_get (rec_extra r) ''process_id'' = Some v \<longrightarrow>
           dict_get ed' ''process_id'' = Some v))"
proof -
  have stage: "\<And>l n d. dict_get (set_process_id pid l n d) ''process_id'' = Some (PyInt pid)"
    by (simp add: set_process_id_def dict_get_setitem_same)
  have chain:
    "(run_chain lib pid None (shared_processors json) lg m ed = Some ed' \<longrightarrow>
        dict_get ed' ''process_id'' = Some (PyInt pid))
     \<and> (run_chain lib pid (Some r) (shared_processors json) lg m ed = Some ed'
         \<and> ''process_id'' \<notin> set (dict_keys (rec_extra r)) \<longrightarrow>
        dict_get ed' ''process_id'' = Some (PyInt pid))
     \<and> (run_chain lib pid (Some r) (shared_processors json) lg m ed = Some ed'
         \<and> wf_dict (rec_extra r) \<and> dict_get (rec_extra r) ''process_id'' = Some v \<longrightarrow>
        dict_get ed' ''process_id'' = Some v)"
    if keep: "\<forall>p rec lg m d d'. p \<noteq> ExtraAdder \<and> lib p rec lg m d = Some d' \<longrightarrow>
                dict_get d' ''process_id'' = dict_get d ''process_id''"
  proof -
    from keep have lib: "\<And>p rec lg m d d'. p \<noteq> ExtraAdder \<Longrightarrow> lib p rec lg m d = Some d' \<Longrightarrow>
                           dict_get d' ''process_id'' = dict_get d ''process_id''"
      by blast
    have native: "dict_get ed' ''process_id'' = Some (PyInt pid)"
      if "run_chain lib pid None (shared_processors json) lg m ed = Some ed'"
      using shared_chain_process_id [of lib pid None json lg m ed ed', OF lib that] by simp
    have absent: "dict_get ed' ''process_id'' = Some (PyInt pid)"
      if "run_chain lib pid (Some r) (shared_processors json) lg m ed = Some ed'"
        and "''process_id'' \<notin> set (dict_keys (rec_extra r))"
      using shared_chain_process_id [of lib pid "Some r" json lg m ed ed', OF lib that(1)]
        dict_get_copy_extras_absent [OF that(2)]
      by simp
    have present: "dict_get ed' ''process_id'' = Some v"
      if "run_chain lib pid (Some r) (shared_processors json) lg m ed = Some ed'"
        and "wf_dict (rec_extra r)" and "dict_get (rec_extra r) ''process_id'' = Some v"
    proof -
      from that(2) have "distinct (dict_keys (rec_extra r))"
        by (simp add: wf_dict_def dict_keys_def)
      from dict_get_copy_extras_present [OF this that(3)]
        shared_chain_process_id [of lib pid "Some r" json lg m ed ed', OF lib that(1)]
      show ?thesis by simp
    qed
    from native absent present show ?thesis by blast
  qed
  have same: "dict_get (set_process_id pid lg1 m1 ed1) ''process_id'' =
              dict_get (set_process_id pid lg2 m2 ed2) ''process_id''"
    by (simp add: set_process_id_def dict_get_setitem_same)
  from stage [of lg1 m1 ed1] same chain show ?thesis by blast
qed

theorem C9_process_id_witness:
  "run_chain passthrough_library 785 None (shared_processors False) ''app.main'' ''info''
     (call_event_dict field_call) =
     Some [(''process_id'', PyInt 785), (''event'', PyStr ''x'')]
   \<and> dict_get [(''process_id'', PyInt 785), (''event'', PyStr ''x'')] ''process_id'' =
       Some (PyInt 785)
   \<and> run_chain passthrough_library 785 (Some plain_record) (shared_processors False)
       ''app.main'' ''info'' (record_event_dict plain_record) =
     Some [(''event'', PyStr ''x''), (''process_id'', PyInt 785)]
   \<and> ''process_id'' \<notin> set (dict_keys (rec_extra plain_record))
   \<and> wf_dict (rec_extra field_record)
   \<and> dict_get (rec_extra field_record) ''process_id'' = Some (PyInt 7)
   \<and> run_chain passthrough_library 785 (Some field_record) (shared_processors False)
       ''app.main'' ''info'' (record_event_dict field_record) =
     Some [(''event'', PyStr ''x''), (''process_id'', PyInt 7)]"
  using C9_process_id_by_path [of 785 "''a''" "''info''" "[]" "''b''" "''info''" "[]"
      passthrough_library False "''app.main''" "''info''" "call_event_dict field_call"
      "[(''process_id'', PyInt 785), (''event'', PyStr ''x'')]" plain_record "PyInt 7"]
  by (simp add: passthrough_library_def shared_processors_def set_process_id_def
      drop_color_message_key_def copy_extras_def call_event_dict_def record_event_dict_def
      field_call_def field_record_def plain_record_def wf_dict_def)

text \<open>
  C10. On every event dictionary \<^verbatim>\<open>_drop_color_message_key\<close> returns normally. The
  result has no key \<^verbatim>\<open>color_message\<close>; every other key has the value it had; the
  remaining entries keep their order; and a dictionary without the key comes back
  unchanged.
\<close>

theorem C10_drop_color_message_key:
  "wf_dict ed \<Longrightarrow>
   dict_get (drop_color_message_key lg m ed) ''color_message'' = None
   \<and> (\<forall>k. k \<noteq> ''color_message'' \<longrightarrow>
          dict_get (drop_color_message_key lg m ed) k = dict_get ed k)
   \<and> drop_color_message_key lg m ed = filter (\<lambda>kv. fst kv \<noteq> ''color_message'') ed
   \<and> (''color_message'' \<notin> set (dict_keys ed) \<longrightarrow> drop_color_message_key lg m ed = ed)
   \<and> wf_dict (drop_color_message_key lg m ed)"
proof -
  assume wf: "wf_dict ed"
  then have d: "distinct (dict_keys ed)"
    by (simp add: wf_dict_def dict_keys_def)
  have gone: "dict_get (drop_color_message_key lg m ed) ''color_message'' = None"
    using pop_removes_key [OF d, of "''color_message''"]
    by (simp add: drop_color_message_key_def dict_get_None_iff)
  have others: "\<forall>k. k \<noteq> ''color_message'' \<longrightarrow>
                  dict_get (drop_color_message_key lg m ed) k = dict_get ed k"
    by (simp add: drop_color_message_key_def dict_get_pop_other)
  have order: "drop_color_message_key lg m ed = filter (\<lambda>kv. fst kv \<noteq> ''color_message'') ed"
    using dict_pop_filter [OF d] by (simp add: drop_color_message_key_def)
  have absent: "''color_message'' \<notin> set (dict_keys ed) \<longrightarrow> drop_color_message_key lg m ed = ed"
    by (simp add: drop_color_message_key_def dict_pop_absent)
  have wf': "wf_dict (drop_color_message_key lg m ed)"
    using wf_dict_pop [OF wf] by (simp add: drop_color_message_key_def)
  from gone others order absent wf' show ?thesis by blast
qed

theorem C10_drop_color_message_key_witness:
  "wf_dict [(''event'', PyStr ''x''), (''color_message'', PyStr ''y''), (''level'', PyStr ''info'')]
   \<and> drop_color_message_key ''lg'' ''info''
       [(''event'', PyStr ''x''), (''color_message'', PyStr ''y''), (''level'', PyStr ''info'')] =
       [(''event'', PyStr ''x''), (''level'', PyStr ''info'')]
   \<and> wf_dict [(''event'', PyStr ''x'')]
   \<and> ''color_message'' \<notin> set (dict_keys [(''event'', PyStr ''x'')])
   \<and> drop_color_message_key ''lg'' ''info'' [(''event'', PyStr ''x'')] = [(''event'', PyStr ''x'')]"
  using C10_drop_color_message_key [of
      "[(''event'', PyStr ''x''), (''color_message'', PyStr ''y''), (''level'', PyStr ''info'')]"
      "''lg''" "''info''"]
    C10_drop_color_message_key [of "[(''event'', PyStr ''x'')]" "''lg''" "''info''"]
  by (simp add: wf_dict_def)

end
